theory Spec2Isabelle
  imports Complex_Main
begin

section \<open>Data model\<close>

text \<open>
  The store holds three tables, Profiles, Contracts and Jobs. A table is the list of
  its rows; the primary key of a row is its id column, an integer. A number of the
  store (a balance, a price) is written as the rational it denotes, a date as a
  number of milliseconds. A job's \<open>paid\<close> column is nullable: the queries of
  \<^verbatim>\<open>app.js\<close> select unpaid jobs with \<^verbatim>\<open>{ paid: null }\<close> and payment writes
  \<^verbatim>\<open>paid: true\<close>.
\<close>

record profile =
  profile_id :: nat
  balance :: rat

record contract =
  contract_id :: nat
  ClientId :: nat
  ContractorId :: nat

record job =
  job_id :: nat
  ContractId :: nat
  price :: rat
  paid :: "bool option"
  paymentDate :: "nat option"

record db =
  Profiles :: "profile list"
  Contracts :: "contract list"
  Jobs :: "job list"

section \<open>Numbers\<close>

text \<open>
  The store is an SQLite database (the reporting queries of \<^verbatim>\<open>app.js\<close> are in
  its dialect) and the handlers run in JavaScript. A JavaScript number is a binary64
  floating-point number. SQLite holds a number as a 64-bit integer or as a binary64
  number.

  Modelled from the spec: the column types of balance and price are declared in
  \<^verbatim>\<open>src/model.js\<close>, which is not among the sources. The specification has them
  as exact decimal amounts; SQLite gives a decimal column numeric affinity, under
  which a stored value is held as a 64-bit integer whenever it is one.
\<close>

definition is_whole :: "rat \<Rightarrow> bool" where
  "is_whole x = (of_int \<lfloor>x\<rfloor> = x)"

definition int64 :: "rat \<Rightarrow> bool" where
  "int64 x = (is_whole x \<and> - (2 ^ 63) \<le> x \<and> x < 2 ^ 63)"

text \<open>
  The whole numbers every binary64 arithmetic and JavaScript's printing of a number
  treat exactly.
\<close>

definition safe :: "rat \<Rightarrow> bool" where
  "safe x = (is_whole x \<and> \<bar>x\<bar> \<le> 2 ^ 53)"

text \<open>
  Rounding to the nearest binary64 number, ties to the even significand. For
  \<open>1 \<le> x\<close>, \<open>halvings x\<close> is the exponent \<open>e\<close> with \<open>2 ^ e \<le> x < 2 ^ (e + 1)\<close>;
  for \<open>0 < x < 1\<close>, \<open>doublings x\<close> is its negation. The significand has 53 bits;
  below \<open>2 powi - 1022\<close> the spacing stays that of the smallest normal numbers. The
  range has no upper end in the model (no infinity): no number of the theorems
  below comes near \<open>2 ^ 1024\<close>.
\<close>

function halvings :: "rat \<Rightarrow> nat" where
  "halvings x = (if 2 \<le> x then Suc (halvings (x / 2)) else 0)"
  by pat_completeness auto
termination
proof (relation "measure (\<lambda>x. nat \<lfloor>x\<rfloor>)")
  show "wf (measure (\<lambda>x::rat. nat \<lfloor>x\<rfloor>))" by simp
next
  fix x :: rat
  assume "2 \<le> x"
  then have "x / 2 \<le> x - 1" by simp
  then have "\<lfloor>x / 2\<rfloor> \<le> \<lfloor>x - 1\<rfloor>" by (rule floor_mono)
  moreover have "0 < \<lfloor>x\<rfloor>" using \<open>2 \<le> x\<close> by linarith
  ultimately show "(x / 2, x) \<in> measure (\<lambda>x. nat \<lfloor>x\<rfloor>)" by simp
qed

function doublings :: "rat \<Rightarrow> nat" where
  "doublings x = (if 0 < x \<and> x < 1 then Suc (doublings (2 * x)) else 0)"
  by pat_completeness auto
termination
proof (relation "measure (\<lambda>x. nat \<lceil>1 / x\<rceil>)")
  show "wf (measure (\<lambda>x::rat. nat \<lceil>1 / x\<rceil>))" by simp
next
  fix x :: rat
  assume a: "0 < x \<and> x < 1"
  then have 1: "1 < 1 / x" by simp
  then have 2: "2 \<le> \<lceil>1 / x\<rceil>" by linarith
  have "1 / (2 * x) = (1 / x) / 2" by simp
  also have "\<dots> \<le> of_int \<lceil>1 / x\<rceil> / 2" by (simp add: divide_right_mono)
  also have "\<dots> \<le> of_int (\<lceil>1 / x\<rceil> - 1)" using 2 by simp
  finally have "\<lceil>1 / (2 * x)\<rceil> \<le> \<lceil>1 / x\<rceil> - 1" by (rule ceiling_le)
  with 2 a show "(2 * x, x) \<in> measure (\<lambda>x. nat \<lceil>1 / x\<rceil>)" by simp
qed

declare halvings.simps [simp del] doublings.simps [simp del]

definition exponent :: "rat \<Rightarrow> int" where
  "exponent x = (if 1 \<le> \<bar>x\<bar> then int (halvings \<bar>x\<bar>) else - int (doublings \<bar>x\<bar>))"

definition round_even :: "rat \<Rightarrow> int" where
  "round_even q =
     (let f = \<lfloor>q\<rfloor>; r = q - of_int f
      in if r < 1 / 2 then f else if 1 / 2 < r then f + 1 else if even f then f else f + 1)"

definition double :: "rat \<Rightarrow> rat" where
  "double x =
     (if safe x then x
      else let u = 2 powi (max (exponent x) (- 1022) - 52)
           in of_int (round_even (x / u)) * u)"

text \<open>
  The SQL expressions \<^verbatim>\<open>balance + y\<close> and \<^verbatim>\<open>balance - y\<close> of \<^verbatim>\<open>utils.js\<close>,
  lines 15 and 25, where \<open>y\<close> is the number JavaScript printed into the SQL text:
  integer arithmetic when both operands are 64-bit integers and the result is one,
  binary64 arithmetic otherwise. (JavaScript prints a number so that it reads back
  as the same binary64 number; a whole number beyond \<open>2 ^ 53\<close> may print as a
  different integer, which the model does not follow.)
\<close>

definition sql_plus :: "rat \<Rightarrow> rat \<Rightarrow> rat" where
  "sql_plus x y =
     (if int64 x \<and> int64 y \<and> int64 (x + y) then x + y else double (double x + double y))"

definition sql_minus :: "rat \<Rightarrow> rat \<Rightarrow> rat" where
  "sql_minus x y =
     (if int64 x \<and> int64 y \<and> int64 (x - y) then x - y else double (double x - double y))"

text \<open>
  SQL's SUM over a non-empty column, in the order of the rows: the integer sum when
  every value is a 64-bit integer, an error when that sum overflows, and the
  binary64 sum accumulated from 0 when a value is not an integer.
\<close>

fun sum_int64 :: "rat \<Rightarrow> rat list \<Rightarrow> rat option" where
  "sum_int64 acc [] = Some acc"
| "sum_int64 acc (x # xs) = (if int64 (acc + x) then sum_int64 (acc + x) xs else None)"

definition sum_double :: "rat list \<Rightarrow> rat" where
  "sum_double xs = foldl (\<lambda>acc x. double (acc + double x)) 0 xs"

definition sql_sum :: "rat list \<Rightarrow> rat option" where
  "sql_sum xs = (if list_all int64 xs then sum_int64 0 xs else Some (sum_double xs))"

section \<open>JavaScript values\<close>

text \<open>
  The values the two handlers compute with: \<^verbatim>\<open>undefined\<close>, \<^verbatim>\<open>null\<close> and
  numbers. \<open>toNumber\<close> is the conversion the arithmetic and relational operators
  apply to an operand; \<open>None\<close> stands for NaN. A request can also carry a string as
  its amount; the model has no such amount.
\<close>

datatype jsval = Undefined | Null | Num rat

fun toNumber :: "jsval \<Rightarrow> rat option" where
  "toNumber Undefined = None"
| "toNumber Null = Some 0"
| "toNumber (Num x) = Some x"

text \<open>\<^verbatim>\<open>!v\<close> is true exactly when \<open>v\<close> is not truthy.\<close>

fun truthy :: "jsval \<Rightarrow> bool" where
  "truthy Undefined = False"
| "truthy Null = False"
| "truthy (Num x) = (x \<noteq> 0)"

text \<open>
  The relational operators: a comparison with NaN on either side is false.
\<close>

definition js_lt :: "jsval \<Rightarrow> jsval \<Rightarrow> bool" where
  "js_lt a b = (case (toNumber a, toNumber b) of (Some x, Some y) \<Rightarrow> x < y | _ \<Rightarrow> False)"

definition js_le :: "jsval \<Rightarrow> jsval \<Rightarrow> bool" where
  "js_le a b = (case (toNumber a, toNumber b) of (Some x, Some y) \<Rightarrow> x \<le> y | _ \<Rightarrow> False)"

definition js_gt :: "jsval \<Rightarrow> rat option \<Rightarrow> bool" where
  "js_gt a b = (case (toNumber a, b) of (Some x, Some y) \<Rightarrow> x > y | _ \<Rightarrow> False)"

text \<open>The arithmetic operators \<^verbatim>\<open>*\<close> and \<^verbatim>\<open>/\<close> on numbers.\<close>

definition js_times :: "rat \<Rightarrow> rat \<Rightarrow> rat" where
  "js_times x y = double (x * y)"

definition js_over :: "rat \<Rightarrow> rat \<Rightarrow> rat" where
  "js_over x y = double (x / y)"

section \<open>Outcomes\<close>

text \<open>
  The responses of the two workflows, under the names of the specification. At the
  HTTP boundary of \<^verbatim>\<open>app.js\<close>: \<open>JobNotFound\<close> is status 404;
  \<open>AlreadyPaid\<close>, \<open>InsufficientBalance\<close>, \<open>SelfDepositForbidden\<close>,
  \<open>InvalidAmount\<close> and \<open>DepositExceedsCap\<close> are status 400;
  \<open>InternalError\<close> is the status 500 of the \<^verbatim>\<open>catch\<close> blocks. Success is
  status 200.
\<close>

datatype error =
    JobNotFound
  | AlreadyPaid
  | InsufficientBalance
  | SelfDepositForbidden
  | InvalidAmount
  | DepositExceedsCap
  | InternalError

text \<open>
  How a handler ends. \<open>Returns r\<close>: it sends the response \<open>r\<close> and returns.
  \<open>Throws s\<close>: an exception leaves the handler outside every \<^verbatim>\<open>try\<close>, after
  the response \<open>s\<close> was sent if there is one; the handler is an async function
  nobody awaits, so the exception is an unhandled rejection and a request without
  a response stays unanswered.
\<close>

datatype reply = Returns "error + unit" | Throws "(error + unit) option"

section \<open>Store queries and updates\<close>

text \<open>
  The value of a \<^verbatim>\<open>where\<close> on an id column is given as the id the database
  reads it as: \<open>Some i\<close>, or \<open>None\<close> when it reads no integer from it, and then
  no row matches.
\<close>

definition Profile_findByPk :: "nat \<Rightarrow> db \<Rightarrow> profile option" where
  "Profile_findByPk i d = find (\<lambda>p. profile_id p = i) (Profiles d)"

definition Contract_findByPk :: "nat \<Rightarrow> db \<Rightarrow> contract option" where
  "Contract_findByPk i d = find (\<lambda>c. contract_id c = i) (Contracts d)"

text \<open>
  \<^verbatim>\<open>Profile.update({ balance: sequelize.literal(e) }, { where: { id } })\<close>: every row
  of Profiles whose id matches gets the value of the SQL expression \<open>e\<close> over its
  current balance; no matching row is no change and no error.
\<close>

definition Profile_update :: "(rat \<Rightarrow> rat) \<Rightarrow> nat option \<Rightarrow> db \<Rightarrow> db" where
  "Profile_update e i d =
     d\<lparr>Profiles :=
         map (\<lambda>p. if Some (profile_id p) = i then p\<lparr>balance := e (balance p)\<rparr> else p) (Profiles d)\<rparr>"

text \<open>
  \<^verbatim>\<open>Job.update({ paid: true, paymentDate: new Date() }, { where: { id } })\<close>, with
  the id of a job that was read from the store.
\<close>

definition Job_update :: "nat \<Rightarrow> nat \<Rightarrow> db \<Rightarrow> db" where
  "Job_update now i d =
     d\<lparr>Jobs := map (\<lambda>j. if job_id j = i then j\<lparr>paid := Some True, paymentDate := Some now\<rparr> else j) (Jobs d)\<rparr>"

text \<open>
  The condition \<^verbatim>\<open>'$Contract.ClientId$': profileId\<close> on a job joined with its
  contract: a job without a contract row has no ClientId and does not match.
\<close>

definition client_is :: "nat option \<Rightarrow> db \<Rightarrow> job \<Rightarrow> bool" where
  "client_is profileId d j =
     (case Contract_findByPk (ContractId j) d of
        None \<Rightarrow> False
      | Some c \<Rightarrow> Some (ClientId c) = profileId)"

text \<open>
  The result of the \<^verbatim>\<open>Job.findOne\<close> of the payment handler: the job with its
  contract and, included by outer joins, the contract's client and contractor
  profiles (null when the profile row is missing).
\<close>

record job_found =
  the_job :: job
  Contract :: contract
  Client :: "profile option"
  Contractor :: "profile option"

definition Job_findOne :: "nat \<Rightarrow> nat \<Rightarrow> db \<Rightarrow> job_found option" where
  "Job_findOne jobId profileId d =
     (case find (\<lambda>j. job_id j = jobId \<and> client_is (Some profileId) d j) (Jobs d) of
        None \<Rightarrow> None
      | Some j \<Rightarrow>
          (case Contract_findByPk (ContractId j) d of
             None \<Rightarrow> None
           | Some c \<Rightarrow>
               Some \<lparr>the_job = j, Contract = c,
                     Client = Profile_findByPk (ClientId c) d,
                     Contractor = Profile_findByPk (ContractorId c) d\<rparr>))"

text \<open>
  The jobs \<^verbatim>\<open>Job.sum('price', ...)\<close> of the deposit handler ranges over: those
  whose contract's client is \<open>profileId\<close> and whose \<open>paid\<close> is null. SQL's SUM
  over no rows is NULL; the query is rejected (\<open>None\<close>) when the integer sum
  overflows; otherwise JavaScript receives the sum as a number.
\<close>

definition unpaid_jobs :: "nat option \<Rightarrow> db \<Rightarrow> job list" where
  "unpaid_jobs profileId d = filter (\<lambda>j. client_is profileId d j \<and> paid j = None) (Jobs d)"

definition Job_sum :: "nat option \<Rightarrow> db \<Rightarrow> jsval option" where
  "Job_sum profileId d =
     (case map price (unpaid_jobs profileId d) of
        [] \<Rightarrow> Some Null
      | ps \<Rightarrow> map_option (\<lambda>s. Num (double s)) (sql_sum ps))"

section \<open>Transfer engine (utils.js)\<close>

text \<open>
  Two updates, one taking \<open>amount\<close> from the balance of \<open>from\<close>, one adding it to
  the balance of \<open>to\<close>. There is no read of a balance and no comparison.
\<close>

definition transfer :: "nat option \<Rightarrow> nat option \<Rightarrow> rat \<Rightarrow> db \<Rightarrow> db" where
  "transfer from to amount d =
     Profile_update (\<lambda>balance. sql_plus balance amount) to
       (Profile_update (\<lambda>balance. sql_minus balance amount) from d)"

section \<open>Job payment (app.js, lines 83 to 137)\<close>

text \<open>
  Modelled from the spec: the declaration of the Job model (\<^verbatim>\<open>src/model.js\<close>) is
  not among the sources. By the specification's data model a job has the attributes
  id, contractId, price, paid and paymentDate; it has no attribute \<^verbatim>\<open>value\<close>,
  so the read \<^verbatim>\<open>job.value\<close> of line 111 gives \<^verbatim>\<open>undefined\<close>.
\<close>

definition job_value :: "job \<Rightarrow> jsval" where
  "job_value j = Undefined"

text \<open>
  The body of the handler, line by line, for a request the \<^verbatim>\<open>getProfile\<close>
  middleware let through. \<open>jobId\<close> and \<open>profileId\<close> are the ids the database
  reads the URL segment and the \<^verbatim>\<open>profile_id\<close> header as; the handler uses
  them in the \<^verbatim>\<open>where\<close> of line 88 only. Line 108 reads \<^verbatim>\<open>job.Contract\<close>
  before line 109 tests \<^verbatim>\<open>!job\<close>: with no job found the read throws a
  TypeError and line 109 is never reached with a null job. Line 110,
  \<^verbatim>\<open>res.send(400).json(...)\<close>, runs when \<^verbatim>\<open>job.paid\<close> is \<^verbatim>\<open>true\<close>: it
  sends status 400 and then throws, since \<^verbatim>\<open>json\<close> is called on a response
  already sent. Line 111 reads \<^verbatim>\<open>client.balance\<close>, which throws when the
  client profile is null, compares it with \<^verbatim>\<open>job.value\<close> and answers as
  line 110 does. Inside the \<^verbatim>\<open>try\<close>, \<^verbatim>\<open>contractor.id\<close> throws when the
  contractor profile is null, before any update is issued, and the \<^verbatim>\<open>catch\<close>
  answers 500. Otherwise the two updates of \<open>transfer\<close>, with the price as
  JavaScript read it, and the update of the job are made and line 136 answers 200.
  \<open>now\<close> is the value of \<^verbatim>\<open>new Date()\<close>.
\<close>

definition payJob :: "nat \<Rightarrow> nat \<Rightarrow> nat \<Rightarrow> db \<Rightarrow> reply \<times> db" where
  "payJob jobId profileId now d =
     (case Job_findOne jobId profileId d of
        None \<Rightarrow> (Throws None, d)
      | Some r \<Rightarrow>
          if paid (the_job r) = Some True then (Throws (Some (Inl AlreadyPaid)), d)
          else
            (case Client r of
               None \<Rightarrow> (Throws None, d)
             | Some client \<Rightarrow>
                 if js_lt (Num (double (balance client))) (job_value (the_job r))
                 then (Throws (Some (Inl InsufficientBalance)), d)
                 else
                   (case Contractor r of
                      None \<Rightarrow> (Returns (Inl InternalError), d)
                    | Some contractor \<Rightarrow>
                        (Returns (Inr ()),
                         Job_update now (job_id (the_job r))
                           (transfer (Some (profile_id client)) (Some (profile_id contractor))
                              (double (price (the_job r))) d)))))"

section \<open>Deposit (app.js, lines 146 to 183)\<close>

text \<open>
  Line 171: \<^verbatim>\<open>(25 * totalAmountToBePaid) / 100\<close>, where a null total counts as 0.
  There is no cap (\<open>None\<close>) when the sum was rejected.
\<close>

definition maxDepositValue :: "nat option \<Rightarrow> db \<Rightarrow> rat option" where
  "maxDepositValue profileId d =
     (case Job_sum profileId d of
        None \<Rightarrow> None
      | Some totalAmountToBePaid \<Rightarrow>
          map_option (\<lambda>t. js_over (js_times 25 t) 100) (toNumber totalAmountToBePaid))"

text \<open>
  \<open>profileId\<close> is the text of the \<^verbatim>\<open>profile_id\<close> header (the caller, who
  pays), \<open>userId\<close> the text of the URL segment (the receiver), \<open>amount\<close> is
  \<^verbatim>\<open>req.body.amount\<close>: absent, null or a number. Line 152 compares the two
  texts. The queries hand the texts to the database, which compares them with the
  integer id columns; \<open>id_of\<close> is the integer the database reads a text as, if
  any, a parameter of the model. The query of line 160 is outside every
  \<^verbatim>\<open>try\<close>. An amount that passed line 156 is a number. The \<^verbatim>\<open>catch\<close> of
  line 177 answers 500 and does not return, so that line 182 throws.
\<close>

definition deposit :: "(string \<Rightarrow> nat option) \<Rightarrow> string \<Rightarrow> string \<Rightarrow> jsval \<Rightarrow> db \<Rightarrow> reply \<times> db" where
  "deposit id_of profileId userId amount d =
     (if userId = profileId then (Returns (Inl SelfDepositForbidden), d)
      else if \<not> truthy amount \<or> js_le amount (Num 0) then (Returns (Inl InvalidAmount), d)
      else if Job_sum (id_of profileId) d = None then (Throws None, d)
      else if js_gt amount (maxDepositValue (id_of profileId) d)
      then (Returns (Inl DepositExceedsCap), d)
      else
        (case toNumber amount of
           None \<Rightarrow> (Throws (Some (Inl InternalError)), d)
         | Some a \<Rightarrow> (Returns (Inr ()), transfer (id_of profileId) (id_of userId) a d)))"

text \<open>
  A text of decimal digits read as the integer it denotes: how the database reads
  the texts of the sample requests below.
\<close>

fun digits :: "nat \<Rightarrow> string \<Rightarrow> nat option" where
  "digits n [] = Some n"
| "digits n (c # cs) =
     (if 48 \<le> (of_char c :: nat) \<and> (of_char c :: nat) \<le> 57
      then digits (10 * n + (of_char c - 48)) cs else None)"

definition decimal :: "string \<Rightarrow> nat option" where
  "decimal s = (if s = [] then None else digits 0 s)"

section \<open>Sequences of operations and totals\<close>

definition profile_ids :: "db \<Rightarrow> nat list" where
  "profile_ids d = map profile_id (Profiles d)"

definition total_balance :: "db \<Rightarrow> rat" where
  "total_balance d = sum_list (map balance (Profiles d))"

text \<open>
  A sequence of transfers, each given as (from, to, amount) with the ids of two
  profiles, run in order.
\<close>

fun transfers :: "(nat \<times> nat \<times> rat) list \<Rightarrow> db \<Rightarrow> db" where
  "transfers [] d = d"
| "transfers ((from, to, amount) # ts) d = transfers ts (transfer (Some from) (Some to) amount d)"

text \<open>
  Whole-number balances with room for \<open>r\<close> more in either direction before
  leaving the safe range.
\<close>

definition room :: "rat \<Rightarrow> profile \<Rightarrow> bool" where
  "room r p = (is_whole (balance p) \<and> \<bar>balance p\<bar> + r \<le> 2 ^ 53)"

text \<open>
  What an exact transfer adds to the balance of a row: the amount on the rows of
  \<open>to\<close>, its negation on the rows of \<open>from\<close>.
\<close>

definition moved :: "nat option \<Rightarrow> nat option \<Rightarrow> rat \<Rightarrow> profile \<Rightarrow> rat" where
  "moved from to amount p =
     (if Some (profile_id p) = to then amount else 0) - (if Some (profile_id p) = from then amount else 0)"

text \<open>
  The same payment request made once per element of a list of request times, each
  call on the store the previous one left; the replies are collected in order.
\<close>

fun payJob_calls :: "nat \<Rightarrow> nat \<Rightarrow> nat list \<Rightarrow> db \<Rightarrow> reply list \<times> db" where
  "payJob_calls jobId profileId [] d = ([], d)"
| "payJob_calls jobId profileId (now # nows) d =
     (case payJob jobId profileId now d of
        (r, d') \<Rightarrow>
          (case payJob_calls jobId profileId nows d' of
             (rs, d'') \<Rightarrow> (r # rs, d'')))"

text \<open>
  The invariant of the specification's data model on the jobs of a store: a payment
  date is present exactly on the jobs marked paid.
\<close>

definition paymentDate_iff_paid :: "db \<Rightarrow> bool" where
  "paymentDate_iff_paid d = list_all (\<lambda>j. (paymentDate j \<noteq> None) = (paid j = Some True)) (Jobs d)"

text \<open>
  Following the specification (4.3, step 3): the payer's outstanding total is the
  sum of the prices of all jobs whose contract's client is the payer and whose paid
  state is unpaid.
\<close>

definition outstanding :: "nat \<Rightarrow> db \<Rightarrow> rat" where
  "outstanding payerId d =
     sum_list
       (map (\<lambda>(j, c).
              if contract_id c = ContractId j \<and> ClientId c = payerId \<and> paid j = None
              then price j else 0)
          (List.product (Jobs d) (Contracts d)))"

section \<open>Sample stores\<close>

text \<open>
  Client 1 with balance \<open>b\<close>, contractor 2 with balance 0, one contract between
  them and one unpaid job of price \<open>p\<close> under it.
\<close>

definition sample_db :: "rat \<Rightarrow> rat \<Rightarrow> db" where
  "sample_db b p =
     \<lparr>Profiles = [\<lparr>profile_id = 1, balance = b\<rparr>, \<lparr>profile_id = 2, balance = 0\<rparr>],
      Contracts = [\<lparr>contract_id = 1, ClientId = 1, ContractorId = 2\<rparr>],
      Jobs = [\<lparr>job_id = 1, ContractId = 1, price = p, paid = None, paymentDate = None\<rparr>]\<rparr>"

text \<open>
  Profile 1 with balance 500 is client and contractor of its one contract, with one
  unpaid job of price 200.
\<close>

definition solo_db :: db where
  "solo_db =
     \<lparr>Profiles = [\<lparr>profile_id = 1, balance = 500\<rparr>],
      Contracts = [\<lparr>contract_id = 1, ClientId = 1, ContractorId = 1\<rparr>],
      Jobs = [\<lparr>job_id = 1, ContractId = 1, price = 200, paid = None, paymentDate = None\<rparr>]\<rparr>"

text \<open>
  Two profiles whose balances are the binary64 numbers nearest to 0.2 and 1.1, and
  no contract.
\<close>

definition cents_db :: db where
  "cents_db =
     \<lparr>Profiles = [\<lparr>profile_id = 1, balance = double (2 / 10)\<rparr>,
                  \<lparr>profile_id = 2, balance = double (11 / 10)\<rparr>],
      Contracts = [],
      Jobs = []\<rparr>"

text \<open>
  Client 1 with two unpaid jobs whose prices are the binary64 numbers nearest to
  0.01 and 0.03.
\<close>

definition pennies_db :: db where
  "pennies_db =
     \<lparr>Profiles = [\<lparr>profile_id = 1, balance = 10\<rparr>, \<lparr>profile_id = 2, balance = 0\<rparr>],
      Contracts = [\<lparr>contract_id = 1, ClientId = 1, ContractorId = 2\<rparr>],
      Jobs = [\<lparr>job_id = 1, ContractId = 1, price = double (1 / 100), paid = None, paymentDate = None\<rparr>,
              \<lparr>job_id = 2, ContractId = 1, price = double (3 / 100), paid = None, paymentDate = None\<rparr>]\<rparr>"

section \<open>The payment when the storage layer rejects a statement\<close>

text \<open>
  A payment issues three UPDATE statements: two in \<open>transfer\<close>, one on the job.
  The storage layer may reject a statement (a lock that times out, a full disk);
  \<open>rejected\<close> tells which ones it rejects.
\<close>

datatype statement = DebitProfile | CreditProfile | MarkJobPaid

text \<open>
  The store while a transaction is open is a triple: whether every statement so far
  was accepted, the store as it stands, and the store a rollback would leave. A
  statement that carries the transaction in its options changes the store as it
  stands only; a statement without one is committed on its own, so a rollback keeps
  it. A rejected statement changes nothing.
\<close>

definition issue ::
  "(statement \<Rightarrow> bool) \<Rightarrow> statement \<Rightarrow> bool \<Rightarrow> (db \<Rightarrow> db) \<Rightarrow> bool \<times> db \<times> db \<Rightarrow> bool \<times> db \<times> db" where
  "issue rejected s in_transaction u st =
     (case st of
        (ok, current, after_rollback) \<Rightarrow>
          if rejected s then (False, current, after_rollback)
          else (ok, u current, if in_transaction then after_rollback else u after_rollback))"

text \<open>
  \<^verbatim>\<open>Model.update(values, options)\<close> has two parameters and takes the
  transaction of the statement from \<^verbatim>\<open>options.transaction\<close>. The calls of
  \<^verbatim>\<open>utils.js\<close> (lines 13 to 31) and \<^verbatim>\<open>app.js\<close> (lines 120 to 129) pass
  three arguments: the values, the options \<^verbatim>\<open>{ where: { id } }\<close> and the
  transaction. \<open>options\<close> is the options object of such a call: the id of its
  \<^verbatim>\<open>where\<close> and whether it has a \<^verbatim>\<open>transaction\<close>; the third argument of a
  call is received and not read.
\<close>

record options =
  where_id :: nat
  transaction :: bool

definition Model_update ::
  "(statement \<Rightarrow> bool) \<Rightarrow> statement \<Rightarrow> (nat \<Rightarrow> db \<Rightarrow> db) \<Rightarrow> options \<Rightarrow> unit \<Rightarrow>
   bool \<times> db \<times> db \<Rightarrow> bool \<times> db \<times> db" where
  "Model_update rejected s values opts third st =
     issue rejected s (transaction opts) (values (where_id opts)) st"

text \<open>
  \<open>transfer\<close> called with a transaction \<open>t\<close> (line 11 keeps the one it is
  given): both updates are issued, whatever becomes of the other.
\<close>

definition transfer_storage ::
  "(statement \<Rightarrow> bool) \<Rightarrow> nat \<Rightarrow> nat \<Rightarrow> rat \<Rightarrow> unit \<Rightarrow> bool \<times> db \<times> db \<Rightarrow> bool \<times> db \<times> db" where
  "transfer_storage rejected from to amount t st =
     Model_update rejected CreditProfile
       (\<lambda>i. Profile_update (\<lambda>balance. sql_plus balance amount) (Some i))
       \<lparr>where_id = to, transaction = False\<rparr> t
       (Model_update rejected DebitProfile
          (\<lambda>i. Profile_update (\<lambda>balance. sql_minus balance amount) (Some i))
          \<lparr>where_id = from, transaction = False\<rparr> t st)"

text \<open>
  The payment handler with such a storage layer. The tests of lines 108 to 111 are
  those of \<open>payJob\<close>. Lines 113 to 136: \<^verbatim>\<open>sequelize.transaction\<close> opens a
  transaction and runs the callback, which issues the statements of \<open>transfer\<close>
  and the update of the job, all before any of them has ended; when one is rejected
  \<^verbatim>\<open>Promise.all\<close> rejects, the transaction is rolled back and line 134 answers
  500; otherwise the transaction is committed and line 136 answers 200.
\<close>

definition payJob_storage ::
  "(statement \<Rightarrow> bool) \<Rightarrow> nat \<Rightarrow> nat \<Rightarrow> nat \<Rightarrow> db \<Rightarrow> reply \<times> db" where
  "payJob_storage rejected jobId profileId now d =
     (case Job_findOne jobId profileId d of
        None \<Rightarrow> (Throws None, d)
      | Some r \<Rightarrow>
          if paid (the_job r) = Some True then (Throws (Some (Inl AlreadyPaid)), d)
          else
            (case Client r of
               None \<Rightarrow> (Throws None, d)
             | Some client \<Rightarrow>
                 if js_lt (Num (double (balance client))) (job_value (the_job r))
                 then (Throws (Some (Inl InsufficientBalance)), d)
                 else
                   (case Contractor r of
                      None \<Rightarrow> (Returns (Inl InternalError), d)
                    | Some contractor \<Rightarrow>
                        (case
                           Model_update rejected MarkJobPaid (Job_update now)
                             \<lparr>where_id = job_id (the_job r), transaction = False\<rparr> ()
                             (transfer_storage rejected (profile_id client)
                                (profile_id contractor) (double (price (the_job r))) ()
                                (True, d, d))
                         of
                           (ok, current, after_rollback) \<Rightarrow>
                             if ok then (Returns (Inr ()), current)
                             else (Returns (Inl InternalError), after_rollback)))))"

section \<open>Lemmas on numbers\<close>

lemma is_whole_Ints: "is_whole x \<longleftrightarrow> x \<in> \<int>"
  by (auto simp: is_whole_def Ints_def)

lemma is_whole_add: "is_whole x \<Longrightarrow> is_whole y \<Longrightarrow> is_whole (x + y)"
  by (simp add: is_whole_Ints)

lemma is_whole_diff: "is_whole x \<Longrightarrow> is_whole y \<Longrightarrow> is_whole (x - y)"
  by (simp add: is_whole_Ints)

lemma safe_int64: "safe x \<Longrightarrow> int64 x"
  by (auto simp: safe_def int64_def abs_le_iff)

lemma double_safe: "safe x \<Longrightarrow> double x = x"
  by (simp add: double_def)

lemma sql_plus_exact:
  "is_whole x \<Longrightarrow> is_whole y \<Longrightarrow> \<bar>x\<bar> + \<bar>y\<bar> \<le> 2 ^ 53 \<Longrightarrow> sql_plus x y = x + y"
  by (auto simp: sql_plus_def int64_def is_whole_add)

lemma sql_minus_exact:
  "is_whole x \<Longrightarrow> is_whole y \<Longrightarrow> \<bar>x\<bar> + \<bar>y\<bar> \<le> 2 ^ 53 \<Longrightarrow> sql_minus x y = x - y"
  by (auto simp: sql_minus_def int64_def is_whole_diff)

lemma halvings_le: "x < 2 ^ Suc n \<Longrightarrow> halvings x \<le> n"
proof (induction n arbitrary: x)
  case 0
  then show ?case by (simp add: halvings.simps)
next
  case (Suc n)
  show ?case
  proof (cases "2 \<le> x")
    case True
    from Suc.prems have "x / 2 < 2 ^ Suc n" by simp
    then have "halvings (x / 2) \<le> n" by (rule Suc.IH)
    with True show ?thesis by (subst halvings.simps) simp
  next
    case False
    then show ?thesis by (simp add: halvings.simps)
  qed
qed

lemma exponent_le: "\<bar>x\<bar> < 2 ^ Suc n \<Longrightarrow> exponent x \<le> int n"
  using halvings_le [of "\<bar>x\<bar>" n] by (simp add: exponent_def)

lemma round_even_of_int: "round_even (of_int m) = m"
  by (simp add: round_even_def)

text \<open>A quarter of a whole number below \<open>2 ^ 53\<close> is a binary64 number.\<close>

lemma double_quarter:
  assumes "is_whole t" "\<bar>t\<bar> < 2 ^ 53"
  shows "double (t / 4) = t / 4"
proof (cases "safe (t / 4)")
  case True
  then show ?thesis by (rule double_safe)
next
  case False
  from assms(1) obtain m :: int where t: "t = of_int m"
    by (auto simp: is_whole_Ints elim: Ints_cases)
  have "\<bar>t / 4\<bar> < 2 ^ Suc 50" using assms(2) by simp
  then have e: "exponent (t / 4) \<le> 50" using exponent_le by fastforce
  define k where "k = nat (52 - max (exponent (t / 4)) (- 1022))"
  have k2: "2 \<le> k" using e by (simp add: k_def)
  have u: "(2::rat) powi (max (exponent (t / 4)) (- 1022) - 52) = 1 / 2 ^ k"
    using e by (simp add: k_def power_int_def inverse_eq_divide power_one_over nat_diff_distrib' algebra_simps)
  obtain j where j: "k = j + 2" using k2 by (metis add.commute le_Suc_ex)
  have q: "t / 4 / (1 / 2 ^ k) = of_int (m * 2 ^ j)"
    by (simp add: t j)
  show ?thesis
    using False unfolding double_def Let_def u q round_even_of_int
    by (simp add: t j)
qed

lemma cap_exact:
  assumes "is_whole t" "0 \<le> t" "25 * t \<le> 2 ^ 53"
  shows "js_over (js_times 25 t) 100 = 25 * t / 100"
proof -
  have w: "is_whole (25 * t)" using assms(1) by (simp add: is_whole_Ints)
  have "safe (25 * t)" using assms w by (simp add: safe_def)
  then have 1: "js_times 25 t = 25 * t" by (simp add: js_times_def double_safe)
  have "\<bar>t\<bar> < 2 ^ 53" using assms(2,3) by simp
  with assms(1) have "double (t / 4) = t / 4" by (rule double_quarter)
  then show ?thesis by (simp add: js_over_def 1)
qed

lemma sum_int64_exact:
  "list_all (\<lambda>x. is_whole x \<and> 0 \<le> x) xs \<Longrightarrow> is_whole acc \<Longrightarrow> 0 \<le> acc \<Longrightarrow>
   acc + sum_list xs \<le> 2 ^ 53 \<Longrightarrow> sum_int64 acc xs = Some (acc + sum_list xs)"
proof (induction xs arbitrary: acc)
  case Nil
  then show ?case by simp
next
  case (Cons x xs)
  have nn: "0 \<le> sum_list xs"
    using Cons.prems(1) by (intro sum_list_nonneg) (auto simp: list_all_iff)
  have "int64 (acc + x)"
    using Cons.prems nn by (auto simp: int64_def is_whole_add)
  moreover have "sum_int64 (acc + x) xs = Some (acc + x + sum_list xs)"
    using Cons.prems by (intro Cons.IH) (auto simp: is_whole_add algebra_simps)
  ultimately show ?case by (simp add: algebra_simps)
qed

lemma elem_le_sum_list:
  "list_all (\<lambda>x. 0 \<le> x) xs \<Longrightarrow> x \<in> set xs \<Longrightarrow> x \<le> sum_list (xs :: rat list)"
proof (induction xs)
  case Nil
  then show ?case by simp
next
  case (Cons y ys)
  have "0 \<le> sum_list ys"
    using Cons.prems(1) by (intro sum_list_nonneg) (auto simp: list_all_iff)
  with Cons show ?case by auto
qed

lemma sql_sum_exact:
  assumes "list_all (\<lambda>x. is_whole x \<and> 0 \<le> x) xs" "sum_list xs \<le> 2 ^ 53"
  shows "sql_sum xs = Some (sum_list xs)"
proof -
  have nn: "list_all (\<lambda>x. 0 \<le> x) xs"
    using assms(1) by (simp add: list_all_iff)
  have "int64 x" if "x \<in> set xs" for x
  proof -
    have "x \<le> 2 ^ 53" using elem_le_sum_list [OF nn that] assms(2) by simp
    with assms(1) that show ?thesis by (auto simp: int64_def list_all_iff)
  qed
  then have "list_all int64 xs" by (simp add: list_all_iff)
  then show ?thesis
    using sum_int64_exact [OF assms(1), of 0] assms(2) by (simp add: sql_sum_def is_whole_def)
qed

section \<open>Lemmas on the store\<close>

lemma sql_plus_int64:
  "is_whole x \<Longrightarrow> is_whole y \<Longrightarrow> \<bar>x\<bar> + \<bar>y\<bar> < 2 ^ 63 \<Longrightarrow> sql_plus x y = x + y"
  by (auto simp: sql_plus_def int64_def is_whole_add)

lemma sql_minus_int64:
  "is_whole x \<Longrightarrow> is_whole y \<Longrightarrow> \<bar>x\<bar> + \<bar>y\<bar> < 2 ^ 63 \<Longrightarrow> sql_minus x y = x - y"
  by (auto simp: sql_minus_def int64_def is_whole_diff)

lemma Profile_update_tables [simp]:
  "Profiles (Profile_update e i d) =
     map (\<lambda>p. if Some (profile_id p) = i then p\<lparr>balance := e (balance p)\<rparr> else p) (Profiles d)"
  "Contracts (Profile_update e i d) = Contracts d"
  "Jobs (Profile_update e i d) = Jobs d"
  by (simp_all add: Profile_update_def)

lemma Job_update_tables [simp]:
  "Profiles (Job_update now i d) = Profiles d"
  "Contracts (Job_update now i d) = Contracts d"
  "Jobs (Job_update now i d) =
     map (\<lambda>j. if job_id j = i then j\<lparr>paid := Some True, paymentDate := Some now\<rparr> else j) (Jobs d)"
  by (simp_all add: Job_update_def)

lemma transfer_tables [simp]:
  "Contracts (transfer from to amount d) = Contracts d"
  "Jobs (transfer from to amount d) = Jobs d"
  by (simp_all add: transfer_def)

lemma profile_ids_Profile_update [simp]:
  "profile_ids (Profile_update e i d) = profile_ids d"
  by (simp add: profile_ids_def comp_def)

lemma profile_ids_transfer [simp]: "profile_ids (transfer from to amount d) = profile_ids d"
  by (simp add: transfer_def)

lemma find_profile_map:
  "(\<And>p. profile_id (g p) = profile_id p) \<Longrightarrow>
   find (\<lambda>p. profile_id p = k) (map g ps) = map_option g (find (\<lambda>p. profile_id p = k) ps)"
  by (induction ps) auto

lemma findByPk_id: "Profile_findByPk k d = Some p \<Longrightarrow> profile_id p = k"
  by (auto simp: Profile_findByPk_def find_Some_iff)

lemma findByPk_mem: "Profile_findByPk k d = Some p \<Longrightarrow> p \<in> set (Profiles d)"
  by (auto simp: Profile_findByPk_def find_Some_iff)

lemma findByPk_Profile_update:
  "Profile_findByPk k (Profile_update e i d) =
   map_option (\<lambda>p. if Some k = i then p\<lparr>balance := e (balance p)\<rparr> else p) (Profile_findByPk k d)"
proof (cases "Profile_findByPk k d")
  case None
  then show ?thesis by (simp add: Profile_findByPk_def find_profile_map)
next
  case (Some p)
  then have "profile_id p = k" by (rule findByPk_id)
  with Some show ?thesis by (simp add: Profile_findByPk_def find_profile_map)
qed

lemma findByPk_transfer:
  "Profile_findByPk k (transfer from to amount d) =
   map_option
     (\<lambda>p. if Some k = to
          then p\<lparr>balance := sql_plus (if Some k = from then sql_minus (balance p) amount else balance p) amount\<rparr>
          else if Some k = from then p\<lparr>balance := sql_minus (balance p) amount\<rparr> else p)
     (Profile_findByPk k d)"
  by (cases "Profile_findByPk k d") (auto simp: transfer_def findByPk_Profile_update)

lemma findByPk_transfer_from:
  assumes "Profile_findByPk from d = Some src" "from \<noteq> to"
    and "is_whole amount" "room \<bar>amount\<bar> src"
  shows "Profile_findByPk from (transfer (Some from) to' amount d) =
         (if to' = Some from then Some src else Some (src\<lparr>balance := balance src - amount\<rparr>))"
    "to' = Some to \<Longrightarrow> Profile_findByPk from (transfer (Some from) to' amount d) =
         Some (src\<lparr>balance := balance src - amount\<rparr>)"
proof -
  have m: "sql_minus (balance src) amount = balance src - amount"
    using assms(3,4) by (intro sql_minus_int64) (auto simp: room_def)
  have "is_whole (balance src - amount)"
    using assms(3,4) by (simp add: room_def is_whole_diff)
  moreover have "\<bar>balance src - amount\<bar> + \<bar>amount\<bar> < 2 ^ 63"
  proof -
    from assms(4) have "\<bar>balance src\<bar> + \<bar>amount\<bar> \<le> 2 ^ 53" by (simp add: room_def)
    then show ?thesis by simp
  qed
  ultimately have p: "sql_plus (balance src - amount) amount = balance src"
    using assms(3) by (simp add: sql_plus_int64)
  show "Profile_findByPk from (transfer (Some from) to' amount d) =
         (if to' = Some from then Some src else Some (src\<lparr>balance := balance src - amount\<rparr>))"
    using assms(1) by (auto simp: findByPk_transfer m p)
  then show "to' = Some to \<Longrightarrow> Profile_findByPk from (transfer (Some from) to' amount d) =
         Some (src\<lparr>balance := balance src - amount\<rparr>)"
    using assms(2) by simp
qed

lemma findByPk_transfer_to:
  assumes "Profile_findByPk to d = Some dst" "from \<noteq> Some to"
    and "is_whole amount" "room \<bar>amount\<bar> dst"
  shows "Profile_findByPk to (transfer from (Some to) amount d) =
         Some (dst\<lparr>balance := balance dst + amount\<rparr>)"
proof -
  have "sql_plus (balance dst) amount = balance dst + amount"
    using assms(3,4) by (intro sql_plus_int64) (auto simp: room_def)
  then show ?thesis
    using assms(1,2) by (auto simp: findByPk_transfer)
qed

lemma findByPk_transfer_other:
  "Some k \<noteq> from \<Longrightarrow> Some k \<noteq> to \<Longrightarrow>
   Profile_findByPk k (transfer from to amount d) = Profile_findByPk k d"
  by (simp add: findByPk_transfer option.map_ident)

lemma findByPk_Job_update [simp]:
  "Profile_findByPk k (Job_update now i d) = Profile_findByPk k d"
  by (simp add: Profile_findByPk_def)

lemma Contract_findByPk_frame [simp]:
  "Contract_findByPk k (Profile_update e i d) = Contract_findByPk k d"
  "Contract_findByPk k (transfer from to amount d) = Contract_findByPk k d"
  "Contract_findByPk k (Job_update now j d) = Contract_findByPk k d"
  by (simp_all add: Contract_findByPk_def)

lemma client_is_frame [simp]:
  "client_is p (Profile_update e i d) = client_is p d"
  "client_is p (transfer from to amount d) = client_is p d"
  "client_is p (Job_update now j d) = client_is p d"
  by (simp_all add: client_is_def fun_eq_iff)

text \<open>
  On whole-number balances with room for the amount, a transfer is exact: the rows
  of \<open>from\<close> go down by the amount and the rows of \<open>to\<close> go up by it.
\<close>

lemma transfer_exact:
  assumes "is_whole amount" "list_all (room \<bar>amount\<bar>) (Profiles d)"
  shows "Profiles (transfer from to amount d) =
         map (\<lambda>p. p\<lparr>balance := balance p + moved from to amount p\<rparr>) (Profiles d)"
proof -
  have row: "(if Some (profile_id q) = to then q\<lparr>balance := sql_plus (balance q) amount\<rparr> else q) =
             p\<lparr>balance := balance p + moved from to amount p\<rparr>"
    if p: "p \<in> set (Profiles d)"
      and q: "q = (if Some (profile_id p) = from then p\<lparr>balance := sql_minus (balance p) amount\<rparr> else p)"
    for p q
  proof -
    from p assms(2) have r: "is_whole (balance p)" "\<bar>balance p\<bar> + \<bar>amount\<bar> \<le> 2 ^ 53"
      by (auto simp: list_all_iff room_def)
    have m: "sql_minus (balance p) amount = balance p - amount"
      using assms(1) r by (intro sql_minus_int64) auto
    have p1: "sql_plus (balance p) amount = balance p + amount"
      using assms(1) r by (intro sql_plus_int64) auto
    have "\<bar>balance p - amount\<bar> + \<bar>amount\<bar> < 2 ^ 63" using r(2) by simp
    then have p2: "sql_plus (balance p - amount) amount = balance p"
      using assms(1) r(1) by (simp add: sql_plus_int64 is_whole_diff)
    show ?thesis by (simp add: q moved_def m p1 p2)
  qed
  show ?thesis
    unfolding transfer_def Profile_update_tables map_map comp_def
    by (rule map_cong [OF refl]) (use row in blast)
qed

lemma sum_moved:
  "sum_list (map (\<lambda>p. balance p + moved from to amount p) ps) =
   sum_list (map balance ps)
   + amount * of_nat (length (filter (\<lambda>p. Some (profile_id p) = to) ps))
   - amount * of_nat (length (filter (\<lambda>p. Some (profile_id p) = from) ps))"
  by (induction ps) (auto simp: moved_def algebra_simps)

lemma one_row:
  "distinct (map profile_id ps) \<Longrightarrow> i \<in> set (map profile_id ps) \<Longrightarrow>
   length (filter (\<lambda>p. profile_id p = i) ps) = 1"
proof (induction ps)
  case Nil
  then show ?case by simp
next
  case (Cons p ps)
  show ?case
  proof (cases "profile_id p = i")
    case True
    with Cons.prems have "i \<notin> set (map profile_id ps)" by auto
    then have "filter (\<lambda>p. profile_id p = i) ps = []"
      by (auto simp: filter_empty_conv)
    with True show ?thesis by simp
  next
    case False
    with Cons show ?thesis by auto
  qed
qed

lemma total_balance_transfer:
  assumes "distinct (profile_ids d)" "from \<in> set (profile_ids d)" "to \<in> set (profile_ids d)"
    and "is_whole amount" "list_all (room \<bar>amount\<bar>) (Profiles d)"
  shows "total_balance (transfer (Some from) (Some to) amount d) = total_balance d"
  using assms(1-3)
  by (simp add: total_balance_def transfer_exact [OF assms(4,5)] comp_def sum_moved
      one_row profile_ids_def)

lemma room_transfer:
  assumes "is_whole amount" "list_all (room (\<bar>amount\<bar> + r)) (Profiles d)" "0 \<le> r"
  shows "list_all (room r) (Profiles (transfer from to amount d))"
proof -
  have "list_all (room \<bar>amount\<bar>) (Profiles d)"
    using assms(2,3) by (auto simp: list_all_iff room_def)
  from transfer_exact [OF assms(1) this]
  show ?thesis
    using assms by (auto simp: list_all_iff room_def moved_def is_whole_add is_whole_diff)
qed

lemma find_distinct:
  "distinct (map profile_id ps) \<Longrightarrow> find (\<lambda>p. profile_id p = k) ps = Some q \<Longrightarrow>
   p \<in> set ps \<Longrightarrow> profile_id p = k \<Longrightarrow> p = q"
  by (induction ps) (auto split: if_splits)

lemma findByPk_distinct:
  "distinct (profile_ids d) \<Longrightarrow> Profile_findByPk k d = Some q \<Longrightarrow>
   p \<in> set (Profiles d) \<Longrightarrow> profile_id p = k \<Longrightarrow> p = q"
  unfolding profile_ids_def Profile_findByPk_def by (rule find_distinct)

lemma job_find_map:
  "find (\<lambda>j. job_id j = k \<and> P (ContractId j))
     (map (\<lambda>j. if job_id j = i then j\<lparr>paid := Some True, paymentDate := Some now\<rparr> else j) js) =
   map_option (\<lambda>j. if job_id j = i then j\<lparr>paid := Some True, paymentDate := Some now\<rparr> else j)
     (find (\<lambda>j. job_id j = k \<and> P (ContractId j)) js)"
  by (induction js) auto

lemma Job_findOne_id: "Job_findOne jobId profileId d = Some r \<Longrightarrow> job_id (the_job r) = jobId"
  by (auto simp: Job_findOne_def find_Some_iff split: option.splits)

lemma Job_findOne_Client:
  "Job_findOne jobId profileId d = Some r \<Longrightarrow> Client r = Profile_findByPk profileId d"
  by (auto simp: Job_findOne_def find_Some_iff client_is_def split: option.splits)

lemma Job_findOne_Contractor:
  "Job_findOne jobId profileId d = Some r \<Longrightarrow>
   Contractor r = Profile_findByPk (ContractorId (Contract r)) d \<and> ClientId (Contract r) = profileId"
  by (auto simp: Job_findOne_def find_Some_iff client_is_def split: option.splits)

lemma client_is_Contracts: "Contracts d' = Contracts d \<Longrightarrow> client_is p d' = client_is p d"
  by (simp add: client_is_def Contract_findByPk_def fun_eq_iff)

lemma Contract_findByPk_Contracts:
  "Contracts d' = Contracts d \<Longrightarrow> Contract_findByPk k d' = Contract_findByPk k d"
  by (simp add: Contract_findByPk_def)

lemma Job_findOne_paid:
  assumes "Job_findOne jobId profileId d = Some r"
    and "Contracts d' = Contracts d" and "Jobs d' = Jobs d"
  shows "map_option the_job (Job_findOne jobId profileId (Job_update now jobId d')) =
         Some ((the_job r)\<lparr>paid := Some True, paymentDate := Some now\<rparr>)"
proof -
  define P where "P k = (case Contract_findByPk k d of None \<Rightarrow> False | Some c \<Rightarrow> Some (ClientId c) = Some profileId)" for k
  let ?d = "Job_update now jobId d'"
  let ?f = "\<lambda>j. if job_id j = jobId then j\<lparr>paid := Some True, paymentDate := Some now\<rparr> else j"
  have 1: "client_is (Some profileId) ?d = client_is (Some profileId) d"
    by (simp add: client_is_Contracts [OF assms(2)])
  have 2: "client_is (Some profileId) d = (\<lambda>j. P (ContractId j))"
    by (simp add: P_def client_is_def fun_eq_iff)
  from assms(1) obtain j where j: "find (\<lambda>j. job_id j = jobId \<and> client_is (Some profileId) d j) (Jobs d) = Some j"
    by (auto simp: Job_findOne_def split: option.splits)
  then have jid: "job_id j = jobId" and jc: "client_is (Some profileId) d j"
    by (auto simp: find_Some_iff)
  from jc obtain c where cc: "Contract_findByPk (ContractId j) d = Some c"
    by (auto simp: client_is_def split: option.splits)
  have "find (\<lambda>j. job_id j = jobId \<and> P (ContractId j)) (map ?f (Jobs d)) = Some (?f j)"
    using j unfolding 2 by (simp add: job_find_map)
  then have 3: "find (\<lambda>j. job_id j = jobId \<and> client_is (Some profileId) ?d j) (Jobs ?d) =
      Some (j\<lparr>paid := Some True, paymentDate := Some now\<rparr>)"
    unfolding 1 2 using jid by (simp add: assms(3))
  have 4: "Contract_findByPk (ContractId j) ?d = Some c"
    using cc by (simp add: Contract_findByPk_Contracts [OF assms(2)])
  have "the_job r = j"
    using assms(1) j cc by (auto simp: Job_findOne_def)
  then show ?thesis
    unfolding Job_findOne_def 3 using 4 by simp
qed

lemma payJob_success:
  assumes "Job_findOne jobId profileId d = Some r" "paid (the_job r) \<noteq> Some True"
    and "Client r = Some client" "Contractor r = Some contractor"
  shows "payJob jobId profileId now d =
         (Returns (Inr ()),
          Job_update now jobId
            (transfer (Some profileId) (Some (ContractorId (Contract r)))
               (double (price (the_job r))) d))"
proof -
  have "profile_id client = profileId"
    using assms(1,3) Job_findOne_Client findByPk_id by fastforce
  moreover have "profile_id contractor = ContractorId (Contract r)"
    using assms(1,4) Job_findOne_Contractor findByPk_id by fastforce
  ultimately show ?thesis
    using assms Job_findOne_id [OF assms(1)]
    by (simp add: payJob_def js_lt_def job_value_def)
qed

lemma payJob_again:
  assumes "Job_findOne jobId profileId d = Some r"
    and "Contracts d' = Contracts d" and "Jobs d' = Jobs d"
  shows "payJob jobId profileId now' (Job_update now jobId d') =
         (Throws (Some (Inl AlreadyPaid)), Job_update now jobId d')"
  using Job_findOne_paid [OF assms, of now] by (auto simp: payJob_def split: option.splits)

lemma payJob_calls_paid:
  assumes "Job_findOne jobId profileId d = Some r"
    and "Contracts d' = Contracts d" and "Jobs d' = Jobs d"
  shows "payJob_calls jobId profileId nows (Job_update now jobId d') =
         (replicate (length nows) (Throws (Some (Inl AlreadyPaid))), Job_update now jobId d')"
  by (induction nows) (simp_all add: payJob_again [OF assms])

lemma paymentDate_iff_paid_Job_update:
  "paymentDate_iff_paid d \<Longrightarrow> Jobs d' = Jobs d \<Longrightarrow> paymentDate_iff_paid (Job_update now i d')"
  by (auto simp: paymentDate_iff_paid_def list_all_iff)

lemma sample_findOne:
  "Job_findOne 1 1 (sample_db b p) =
     Some \<lparr>the_job = \<lparr>job_id = 1, ContractId = 1, price = p, paid = None, paymentDate = None\<rparr>,
           Contract = \<lparr>contract_id = 1, ClientId = 1, ContractorId = 2\<rparr>,
           Client = Some \<lparr>profile_id = 1, balance = b\<rparr>,
           Contractor = Some \<lparr>profile_id = 2, balance = 0\<rparr>\<rparr>"
  by (simp add: Job_findOne_def sample_db_def client_is_def Contract_findByPk_def Profile_findByPk_def)

text \<open>
  With unique contract ids, the outstanding total of the specification is the sum
  over the rows the query of the deposit handler selects.
\<close>

lemma sum_contracts:
  "distinct (map contract_id cs) \<Longrightarrow>
   sum_list (map (\<lambda>c. if contract_id c = k \<and> ClientId c = p \<and> u then v else (0::rat)) cs) =
   (case find (\<lambda>c. contract_id c = k) cs of
      None \<Rightarrow> 0
    | Some c \<Rightarrow> if ClientId c = p \<and> u then v else 0)"
proof (induction cs)
  case Nil
  then show ?case by simp
next
  case (Cons c cs)
  show ?case
  proof (cases "contract_id c = k")
    case True
    with Cons.prems have "k \<notin> set (map contract_id cs)" by auto
    then have "sum_list (map (\<lambda>c. if contract_id c = k \<and> ClientId c = p \<and> u then v else 0) cs) = 0"
      by (induction cs) auto
    with True show ?thesis by simp
  next
    case False
    with Cons show ?thesis by simp
  qed
qed

lemma sum_product:
  "sum_list (map f (List.product js cs)) = sum_list (map (\<lambda>j. sum_list (map (\<lambda>c. f (j, c)) cs)) js)"
  by (induction js) (simp_all add: comp_def)

lemma outstanding_unpaid_jobs:
  assumes "distinct (map contract_id (Contracts d))"
  shows "outstanding payerId d = sum_list (map price (unpaid_jobs (Some payerId) d))"
proof -
  have "sum_list (map (\<lambda>c. if contract_id c = ContractId j \<and> ClientId c = payerId \<and> paid j = None
                           then price j else 0) (Contracts d)) =
        (if client_is (Some payerId) d j \<and> paid j = None then price j else 0)" for j
    using sum_contracts [OF assms, of "ContractId j" payerId "paid j = None" "price j"]
    by (simp add: client_is_def Contract_findByPk_def split: option.splits)
  then show ?thesis
    by (simp add: outstanding_def sum_product unpaid_jobs_def sum_list_map_filter')
qed

lemma deposit_store:
  "fst (deposit id_of profileId userId (Num amount) d) = Returns (Inr ()) \<Longrightarrow>
   snd (deposit id_of profileId userId (Num amount) d) = transfer (id_of profileId) (id_of userId) amount d"
  by (simp add: deposit_def split: if_splits)

section \<open>Overdraft\<close>

text \<open>
  C1, as stated, fails: \<open>transfer\<close> reads no balance and has no failure, and the
  deposit handler checks the amount against the cap only. On the sample store with a
  client balance of 10 and a job of price 200 (cap 50), a transfer of 50 changes the
  store and leaves the client at -40, and the deposit of 50 succeeds with that
  store.
\<close>

theorem transfer_overdraft_counterexample:
  "transfer (Some 1) (Some 2) 50 (sample_db 10 200) \<noteq> sample_db 10 200 \<and>
   Profile_findByPk 1 (transfer (Some 1) (Some 2) 50 (sample_db 10 200)) =
     Some \<lparr>profile_id = 1, balance = - 40\<rparr> \<and>
   deposit decimal ''1'' ''2'' (Num 50) (sample_db 10 200) =
     (Returns (Inr ()), transfer (Some 1) (Some 2) 50 (sample_db 10 200))"
  by code_simp

text \<open>
  C1, amended. In a store with unique profile ids whose balances are whole numbers,
  none negative, with room for the amount, a transfer of a whole non-negative amount
  from an existing profile to a different one always applies: the source's balance
  goes down by the amount, the destination's (if it exists) goes up by the amount,
  every other profile is as before. It leaves no balance below zero exactly when the
  source held at least the amount. A deposit that succeeds leaves the store of the
  transfer from its caller to its receiver.
\<close>

theorem transfer_nonnegative_iff:
  assumes "distinct (profile_ids d)"
    and "list_all (\<lambda>p. 0 \<le> balance p \<and> room amount p) (Profiles d)"
    and "0 \<le> amount"
    and "is_whole amount"
    and "Profile_findByPk from d = Some src"
    and "from \<noteq> to"
  shows "Profile_findByPk from (transfer (Some from) (Some to) amount d) =
           Some (src\<lparr>balance := balance src - amount\<rparr>) \<and>
         Profile_findByPk to (transfer (Some from) (Some to) amount d) =
           map_option (\<lambda>p. p\<lparr>balance := balance p + amount\<rparr>) (Profile_findByPk to d) \<and>
         (\<forall>k. k \<noteq> from \<and> k \<noteq> to \<longrightarrow>
            Profile_findByPk k (transfer (Some from) (Some to) amount d) = Profile_findByPk k d) \<and>
         (list_all (\<lambda>p. 0 \<le> balance p) (Profiles (transfer (Some from) (Some to) amount d)) \<longleftrightarrow>
            amount \<le> balance src) \<and>
         (\<forall>id_of profileId userId.
            fst (deposit id_of profileId userId (Num amount) d) = Returns (Inr ()) \<longrightarrow>
            snd (deposit id_of profileId userId (Num amount) d) =
              transfer (id_of profileId) (id_of userId) amount d)"
proof -
  have abs: "\<bar>amount\<bar> = amount" using assms(3) by simp
  have rooms: "list_all (room \<bar>amount\<bar>) (Profiles d)"
    using assms(2) by (simp add: abs list_all_iff)
  have srcr: "room \<bar>amount\<bar> src"
    using rooms findByPk_mem [OF assms(5)] by (simp add: list_all_iff)
  have after: "Profile_findByPk from (transfer (Some from) (Some to) amount d) =
      Some (src\<lparr>balance := balance src - amount\<rparr>)"
    using assms(5,6,4) srcr by (rule findByPk_transfer_from(2)) simp
  have dest: "Profile_findByPk to (transfer (Some from) (Some to) amount d) =
      map_option (\<lambda>p. p\<lparr>balance := balance p + amount\<rparr>) (Profile_findByPk to d)"
  proof (cases "Profile_findByPk to d")
    case None
    then show ?thesis by (simp add: findByPk_transfer)
  next
    case (Some dst)
    have "room \<bar>amount\<bar> dst"
      using rooms findByPk_mem [OF Some] by (simp add: list_all_iff)
    with Some assms(4,6) show ?thesis by (simp add: findByPk_transfer_to)
  qed
  have exact: "Profiles (transfer (Some from) (Some to) amount d) =
      map (\<lambda>p. p\<lparr>balance := balance p + moved (Some from) (Some to) amount p\<rparr>) (Profiles d)"
    using assms(4) rooms by (rule transfer_exact)
  have iff: "list_all (\<lambda>p. 0 \<le> balance p) (Profiles (transfer (Some from) (Some to) amount d)) \<longleftrightarrow>
      amount \<le> balance src"
  proof
    assume "list_all (\<lambda>p. 0 \<le> balance p) (Profiles (transfer (Some from) (Some to) amount d))"
    with findByPk_mem [OF after] have "0 \<le> balance (src\<lparr>balance := balance src - amount\<rparr>)"
      unfolding list_all_iff by blast
    then show "amount \<le> balance src" by simp
  next
    assume le: "amount \<le> balance src"
    have "0 \<le> balance p + moved (Some from) (Some to) amount p" if "p \<in> set (Profiles d)" for p
    proof (cases "profile_id p = from")
      case True
      with findByPk_distinct [OF assms(1,5) that] have "p = src" by simp
      with True le assms(6) show ?thesis by (simp add: moved_def)
    next
      case False
      with assms(2,3) that show ?thesis by (auto simp: moved_def list_all_iff)
    qed
    then show "list_all (\<lambda>p. 0 \<le> balance p) (Profiles (transfer (Some from) (Some to) amount d))"
      by (simp add: exact list_all_iff)
  qed
  show ?thesis
    using after dest iff by (simp add: findByPk_transfer_other deposit_store)
qed

text \<open>
  The amended C1 on the sample store with a job of price 800 (cap 200): 200 out of
  a balance of 500, as a transfer and as a deposit.
\<close>

theorem transfer_nonnegative_iff_witness:
  "Profile_findByPk 1 (transfer (Some 1) (Some 2) 200 (sample_db 500 800)) =
     Some \<lparr>profile_id = 1, balance = 300\<rparr> \<and>
   Profile_findByPk 2 (transfer (Some 1) (Some 2) 200 (sample_db 500 800)) =
     Some \<lparr>profile_id = 2, balance = 200\<rparr> \<and>
   Profile_findByPk 3 (transfer (Some 1) (Some 2) 200 (sample_db 500 800)) = None \<and>
   list_all (\<lambda>p. 0 \<le> balance p) (Profiles (transfer (Some 1) (Some 2) 200 (sample_db 500 800))) \<and>
   snd (deposit decimal ''1'' ''2'' (Num 200) (sample_db 500 800)) =
     transfer (Some 1) (Some 2) 200 (sample_db 500 800)"
proof -
  have 1: "distinct (profile_ids (sample_db 500 800))"
    by (simp add: sample_db_def profile_ids_def)
  have 2: "list_all (\<lambda>p. 0 \<le> balance p \<and> room 200 p) (Profiles (sample_db 500 800))"
    by (simp add: sample_db_def room_def is_whole_def)
  have 3: "is_whole 200" by (simp add: is_whole_def)
  have 4: "Profile_findByPk 1 (sample_db 500 800) = Some \<lparr>profile_id = 1, balance = 500\<rparr>"
    by (simp add: sample_db_def Profile_findByPk_def)
  have 5: "Profile_findByPk 2 (sample_db 500 800) = Some \<lparr>profile_id = 2, balance = 0\<rparr>"
       "Profile_findByPk 3 (sample_db 500 800) = None"
    by (simp_all add: sample_db_def Profile_findByPk_def)
  have 6: "fst (deposit decimal ''1'' ''2'' (Num 200) (sample_db 500 800)) = Returns (Inr ())"
    by code_simp
  have 7: "decimal ''1'' = Some 1" "decimal ''2'' = Some 2" by code_simp+
  note t = transfer_nonnegative_iff [OF 1 2 _ 3 4, of 2]
  have a: "Profile_findByPk 1 (transfer (Some 1) (Some 2) 200 (sample_db 500 800)) =
     Some \<lparr>profile_id = 1, balance = 300\<rparr>"
    using t by simp
  have b: "Profile_findByPk 2 (transfer (Some 1) (Some 2) 200 (sample_db 500 800)) =
     Some \<lparr>profile_id = 2, balance = 200\<rparr>"
    using t 5 by simp
  have c: "Profile_findByPk 3 (transfer (Some 1) (Some 2) 200 (sample_db 500 800)) = None"
    using t 5 by simp
  have d: "list_all (\<lambda>p. 0 \<le> balance p) (Profiles (transfer (Some 1) (Some 2) 200 (sample_db 500 800)))"
    using t by simp
  have e: "snd (deposit decimal ''1'' ''2'' (Num 200) (sample_db 500 800)) =
     transfer (Some 1) (Some 2) 200 (sample_db 500 800)"
    using t 6 7 by simp
  from a b c d e show ?thesis by blast
qed

section \<open>Conservation\<close>

text \<open>
  C3, as stated, fails: the balances are binary floating-point numbers once they
  are not whole. With balances 0.2 and 1.1, a transfer of 0.1 from the first
  profile to the second leaves 0.1 and 1.2000000000000002, and the sum of the two
  balances has grown by \<open>3 / 2 ^ 55\<close>.
\<close>

theorem transfer_rounding_counterexample:
  "total_balance (transfer (Some 1) (Some 2) (double (1 / 10)) cents_db) =
     total_balance cents_db + 3 / 2 ^ 55"
  by code_simp

text \<open>
  C3, amended. In a store with unique profile ids and whole-number balances, a
  sequence of transfers of whole amounts, each between two existing profiles, leaves
  the sum of all balances unchanged, provided every balance has room for the
  amounts of the whole sequence. A single transfer is the sequence of length one.
\<close>

theorem transfers_conserve_total:
  assumes "distinct (profile_ids d)"
    and "list_all (\<lambda>(from, to, amount).
           from \<in> set (profile_ids d) \<and> to \<in> set (profile_ids d) \<and> is_whole amount) ts"
    and "list_all (room (sum_list (map (\<lambda>(from, to, amount). \<bar>amount\<bar>) ts))) (Profiles d)"
  shows "total_balance (transfers ts d) = total_balance d"
  using assms
proof (induction ts arbitrary: d)
  case Nil
  then show ?case by simp
next
  case (Cons t ts)
  obtain "from" to amount where t: "t = (from, to, amount)" by (cases t)
  let ?r = "sum_list (map (\<lambda>(from, to, amount). \<bar>amount\<bar>) ts)"
  have r0: "0 \<le> ?r" by (intro sum_list_nonneg) auto
  from Cons.prems(2) t have ex: "from \<in> set (profile_ids d)" "to \<in> set (profile_ids d)"
    and w: "is_whole amount"
    by auto
  from Cons.prems(3) t have rooms: "list_all (room (\<bar>amount\<bar> + ?r)) (Profiles d)" by simp
  then have rooms': "list_all (room \<bar>amount\<bar>) (Profiles d)"
    using r0 by (auto simp: list_all_iff room_def)
  have "total_balance (transfers ts (transfer (Some from) (Some to) amount d)) =
        total_balance (transfer (Some from) (Some to) amount d)"
  proof (rule Cons.IH)
    show "distinct (profile_ids (transfer (Some from) (Some to) amount d))"
      using Cons.prems(1) by simp
    show "list_all (\<lambda>(from', to', amount').
            from' \<in> set (profile_ids (transfer (Some from) (Some to) amount d)) \<and>
            to' \<in> set (profile_ids (transfer (Some from) (Some to) amount d)) \<and>
            is_whole amount') ts"
      using Cons.prems(2) by simp
    show "list_all (room ?r) (Profiles (transfer (Some from) (Some to) amount d))"
      using w rooms r0 by (rule room_transfer)
  qed
  also have "\<dots> = total_balance d"
    using Cons.prems(1) ex w rooms' by (rule total_balance_transfer)
  finally show ?case by (simp add: t)
qed

text \<open>
  The amended C3 on the sample store: 200 from profile 1 to profile 2, then 50
  back.
\<close>

theorem transfers_conserve_total_witness:
  "total_balance (transfers [(1, 2, 200), (2, 1, 50)] (sample_db 500 200)) = 500"
  using transfers_conserve_total [of "sample_db 500 200" "[(1, 2, 200), (2, 1, 50)]"]
  by (simp add: sample_db_def profile_ids_def total_balance_def room_def is_whole_def)

lemma is_whole_sum_list: "list_all is_whole xs \<Longrightarrow> is_whole (sum_list xs)"
  by (induction xs) (simp_all add: is_whole_add, simp add: is_whole_def)

section \<open>Paying a job\<close>

text \<open>
  C5, as stated, fails: nothing keeps a contract from having one profile as its
  client and its contractor. For such a contract the payment of an unpaid job the
  client can afford succeeds, and the debit and the credit fall on the same row:
  profile 1 pays 200 out of 500 and still has 500.
\<close>

theorem payJob_one_party_counterexample:
  "Job_findOne 1 1 solo_db \<noteq> None \<and>
   fst (payJob 1 1 1000 solo_db) = Returns (Inr ()) \<and>
   Profile_findByPk 1 (snd (payJob 1 1 1000 solo_db)) = Some \<lparr>profile_id = 1, balance = 500\<rparr>"
  by code_simp

text \<open>
  C5, amended. When the lookup finds the job for the caller, the job is not paid,
  the client and contractor profiles exist and are two different profiles, the
  price and the two balances are whole numbers with room for the price, and the
  client holds at least the price, the payment succeeds; afterwards the client's
  balance is lower by the price, the contractor's is higher by the price, and the
  job is paid with the payment date of the call. A store in which the payment date
  is present exactly on the paid jobs is still such a store.
\<close>

theorem payJob_pays_job:
  assumes "Job_findOne jobId profileId d = Some r"
    and "paid (the_job r) \<noteq> Some True"
    and "Client r = Some client"
    and "Contractor r = Some contractor"
    and "profile_id client \<noteq> profile_id contractor"
    and "price (the_job r) \<le> balance client"
    and "safe (price (the_job r))"
    and "room \<bar>price (the_job r)\<bar> client"
    and "room \<bar>price (the_job r)\<bar> contractor"
  shows "fst (payJob jobId profileId now d) = Returns (Inr ()) \<and>
         Profile_findByPk (profile_id client) (snd (payJob jobId profileId now d)) =
           Some (client\<lparr>balance := balance client - price (the_job r)\<rparr>) \<and>
         Profile_findByPk (profile_id contractor) (snd (payJob jobId profileId now d)) =
           Some (contractor\<lparr>balance := balance contractor + price (the_job r)\<rparr>) \<and>
         map_option the_job (Job_findOne jobId profileId (snd (payJob jobId profileId now d))) =
           Some ((the_job r)\<lparr>paid := Some True, paymentDate := Some now\<rparr>) \<and>
         (paymentDate_iff_paid d \<longrightarrow> paymentDate_iff_paid (snd (payJob jobId profileId now d)))"
proof -
  let ?p = "price (the_job r)"
  let ?t = "transfer (Some profileId) (Some (ContractorId (Contract r))) ?p d"
  have dp: "double ?p = ?p" using assms(7) by (rule double_safe)
  have w: "is_whole ?p" using assms(7) by (simp add: safe_def)
  have pay: "payJob jobId profileId now d = (Returns (Inr ()), Job_update now jobId ?t)"
    using payJob_success [OF assms(1-4)] by (simp add: dp)
  have cl: "Profile_findByPk profileId d = Some client"
    using Job_findOne_Client [OF assms(1)] assms(3) by simp
  have ct: "Profile_findByPk (ContractorId (Contract r)) d = Some contractor"
    using Job_findOne_Contractor [OF assms(1)] assms(4) by simp
  have ids: "profile_id client = profileId" "profile_id contractor = ContractorId (Contract r)"
    using cl ct by (simp_all add: findByPk_id)
  have ne: "profileId \<noteq> ContractorId (Contract r)"
    using assms(5) ids by simp
  show ?thesis
    unfolding pay fst_conv snd_conv ids
  proof (intro conjI impI)
    show "Returns (Inr ()) = Returns (Inr ())" ..
    show "Profile_findByPk profileId (Job_update now jobId ?t) =
          Some (client\<lparr>balance := balance client - ?p\<rparr>)"
      using findByPk_transfer_from(2) [OF cl ne w assms(8)] by simp
    show "Profile_findByPk (ContractorId (Contract r)) (Job_update now jobId ?t) =
          Some (contractor\<lparr>balance := balance contractor + ?p\<rparr>)"
      using findByPk_transfer_to [OF ct _ w assms(9), of "Some profileId"] ne by simp
    show "map_option the_job (Job_findOne jobId profileId (Job_update now jobId ?t)) =
          Some ((the_job r)\<lparr>paid := Some True, paymentDate := Some now\<rparr>)"
      using assms(1) by (rule Job_findOne_paid) simp_all
    show "paymentDate_iff_paid (Job_update now jobId ?t)" if "paymentDate_iff_paid d"
      using that by (rule paymentDate_iff_paid_Job_update) simp
  qed
qed

text \<open>
  The amended C5 on the example of the specification: price 200, client balance
  500, contractor balance 0.
\<close>

theorem payJob_pays_job_witness:
  "fst (payJob 1 1 1000 (sample_db 500 200)) = Returns (Inr ()) \<and>
   Profile_findByPk 1 (snd (payJob 1 1 1000 (sample_db 500 200))) = Some \<lparr>profile_id = 1, balance = 300\<rparr> \<and>
   Profile_findByPk 2 (snd (payJob 1 1 1000 (sample_db 500 200))) = Some \<lparr>profile_id = 2, balance = 200\<rparr> \<and>
   map_option the_job (Job_findOne 1 1 (snd (payJob 1 1 1000 (sample_db 500 200)))) =
     Some \<lparr>job_id = 1, ContractId = 1, price = 200, paid = Some True, paymentDate = Some 1000\<rparr> \<and>
   paymentDate_iff_paid (snd (payJob 1 1 1000 (sample_db 500 200)))"
proof -
  have "paymentDate_iff_paid (sample_db 500 200)"
    by (simp add: paymentDate_iff_paid_def sample_db_def)
  with payJob_pays_job [OF sample_findOne [of 500 200],
      where client = "\<lparr>profile_id = 1, balance = 500\<rparr>"
        and contractor = "\<lparr>profile_id = 2, balance = 0\<rparr>" and now = 1000]
  show ?thesis by (simp add: safe_def room_def is_whole_def)
qed

text \<open>
  C8, as stated, fails for the same reason as C5: on the contract with one profile
  in both roles the first call succeeds, later calls change nothing, and the
  balance has not changed at all.
\<close>

theorem payJob_twice_one_party_counterexample:
  "Job_findOne 1 1 solo_db \<noteq> None \<and>
   hd (fst (payJob_calls 1 1 [1000, 2000] solo_db)) = Returns (Inr ()) \<and>
   Profile_findByPk 1 solo_db = Some \<lparr>profile_id = 1, balance = 500\<rparr> \<and>
   Profile_findByPk 1 (snd (payJob_calls 1 1 [1000, 2000] solo_db)) =
     Some \<lparr>profile_id = 1, balance = 500\<rparr>"
  by code_simp

text \<open>
  C8, amended. Under the hypotheses of the amended C5, a first call followed by
  any number of further calls for the same job succeeds once, and every further call
  takes the branch of line 110, whose response is AlreadyPaid; the store after all
  calls is the store after the first, so the client's balance is lower by the price
  once and the contractor's higher by the price once.
\<close>

theorem payJob_twice:
  assumes "Job_findOne jobId profileId d = Some r"
    and "paid (the_job r) \<noteq> Some True"
    and "Client r = Some client"
    and "Contractor r = Some contractor"
    and "profile_id client \<noteq> profile_id contractor"
    and "price (the_job r) \<le> balance client"
    and "safe (price (the_job r))"
    and "room \<bar>price (the_job r)\<bar> client"
    and "room \<bar>price (the_job r)\<bar> contractor"
  shows "payJob_calls jobId profileId (now # nows) d =
           (Returns (Inr ()) # replicate (length nows) (Throws (Some (Inl AlreadyPaid))),
            snd (payJob jobId profileId now d)) \<and>
         Profile_findByPk (profile_id client) (snd (payJob_calls jobId profileId (now # nows) d)) =
           Some (client\<lparr>balance := balance client - price (the_job r)\<rparr>) \<and>
         Profile_findByPk (profile_id contractor) (snd (payJob_calls jobId profileId (now # nows) d)) =
           Some (contractor\<lparr>balance := balance contractor + price (the_job r)\<rparr>)"
proof -
  let ?p = "price (the_job r)"
  let ?t = "transfer (Some profileId) (Some (ContractorId (Contract r))) ?p d"
  have dp: "double ?p = ?p" using assms(7) by (rule double_safe)
  have w: "is_whole ?p" using assms(7) by (simp add: safe_def)
  have pay: "payJob jobId profileId now d = (Returns (Inr ()), Job_update now jobId ?t)"
    using payJob_success [OF assms(1-4)] by (simp add: dp)
  have rest: "payJob_calls jobId profileId nows (Job_update now jobId ?t) =
      (replicate (length nows) (Throws (Some (Inl AlreadyPaid))), Job_update now jobId ?t)"
    using assms(1) by (rule payJob_calls_paid) simp_all
  have cl: "Profile_findByPk profileId d = Some client"
    using Job_findOne_Client [OF assms(1)] assms(3) by simp
  have ct: "Profile_findByPk (ContractorId (Contract r)) d = Some contractor"
    using Job_findOne_Contractor [OF assms(1)] assms(4) by simp
  have ids: "profile_id client = profileId" "profile_id contractor = ContractorId (Contract r)"
    using cl ct by (simp_all add: findByPk_id)
  have ne: "profileId \<noteq> ContractorId (Contract r)"
    using assms(5) ids by simp
  have calls: "payJob_calls jobId profileId (now # nows) d =
      (Returns (Inr ()) # replicate (length nows) (Throws (Some (Inl AlreadyPaid))),
       Job_update now jobId ?t)"
    by (simp add: pay rest)
  show ?thesis
    unfolding calls pay fst_conv snd_conv ids
    using findByPk_transfer_from(2) [OF cl ne w assms(8)]
      findByPk_transfer_to [OF ct _ w assms(9), of "Some profileId"] ne
    by simp
qed

text \<open>The amended C8 on the sample store, with three calls.\<close>

theorem payJob_twice_witness:
  "payJob_calls 1 1 [1000, 2000, 3000] (sample_db 500 200) =
     ([Returns (Inr ()), Throws (Some (Inl AlreadyPaid)), Throws (Some (Inl AlreadyPaid))],
      snd (payJob 1 1 1000 (sample_db 500 200))) \<and>
   Profile_findByPk 1 (snd (payJob_calls 1 1 [1000, 2000, 3000] (sample_db 500 200))) =
     Some \<lparr>profile_id = 1, balance = 300\<rparr> \<and>
   Profile_findByPk 2 (snd (payJob_calls 1 1 [1000, 2000, 3000] (sample_db 500 200))) =
     Some \<lparr>profile_id = 2, balance = 200\<rparr>"
  using payJob_twice [OF sample_findOne [of 500 200],
      where client = "\<lparr>profile_id = 1, balance = 500\<rparr>"
        and contractor = "\<lparr>profile_id = 2, balance = 0\<rparr>"
        and now = 1000 and nows = "[2000, 3000]"]
  by (auto simp del: payJob_calls.simps simp add: safe_def room_def is_whole_def)

text \<open>
  With no job found, whatever the reason, the handler throws and changes nothing.
\<close>

lemma payJob_no_job:
  "Job_findOne jobId profileId d = None \<Longrightarrow> payJob jobId profileId now d = (Throws None, d)"
  by (simp add: payJob_def)

text \<open>
  C4 does not hold of the handler: when the lookup finds no job (no job of that
  id, or the caller is not the client of its contract), line 108 throws before the
  test of line 109, so the handler ends by an uncaught TypeError with no response
  and not by JobNotFound. The store is unchanged. Two requests on the sample store:
  job 7 does not exist, and profile 2 is not the client of job 1.
\<close>

theorem payJob_job_not_found_throws:
  "payJob 7 1 1000 (sample_db 500 200) = (Throws None, sample_db 500 200) \<and>
   payJob 1 2 1000 (sample_db 500 200) = (Throws None, sample_db 500 200)"
  by (simp add: payJob_def Job_findOne_def sample_db_def client_is_def Contract_findByPk_def)

text \<open>The numbers of the store with prices of 0.01 and 0.03.\<close>

lemma pennies_prices:
  "map price (unpaid_jobs (Some 1) pennies_db) = [double (1 / 100), double (3 / 100)]"
  by (simp del: One_nat_def add: unpaid_jobs_def pennies_db_def client_is_def Contract_findByPk_def)

lemma double_cent: "double (1 / 100) = 5764607523034235 / 576460752303423488"
  by code_simp

lemma double_3_cents: "double (3 / 100) = 1080863910568919 / 36028797018963968"
  by code_simp

lemma sum_cents:
  "sql_sum [5764607523034235 / 576460752303423488, 1080863910568919 / 36028797018963968] =
   Some (5764607523034235 / 144115188075855872)"
  by code_simp

lemma double_4_cents:
  "double (5764607523034235 / 144115188075855872) = 5764607523034235 / 144115188075855872"
  by code_simp

lemma cap_cents:
  "js_over (js_times 25 (5764607523034235 / 144115188075855872)) 100 =
   5764607523034235 / 576460752303423488"
  by code_simp

lemma decimal_1: "decimal ''1'' = Some 1"
  by code_simp

lemma pennies_sum:
  "Job_sum (Some 1) pennies_db = Some (Num (5764607523034235 / 144115188075855872))"
  by (simp del: One_nat_def add: Job_sum_def pennies_prices double_cent double_3_cents sum_cents double_4_cents)

lemma pennies_cap:
  "maxDepositValue (Some 1) pennies_db = Some (5764607523034235 / 576460752303423488)"
  by (simp del: One_nat_def add: maxDepositValue_def pennies_sum cap_cents)

lemma pennies_outstanding:
  "outstanding 1 pennies_db = 23058430092136939 / 576460752303423488"
  by (simp del: One_nat_def add: outstanding_def pennies_db_def double_cent double_3_cents)

section \<open>Deposits\<close>




text \<open>
  C6, as stated, fails: the sum of the prices and the cap are computed in binary
  floating point once a price is not whole. With unpaid jobs of prices 0.01 and
  0.03 the computed total is 0.04 and the computed cap is 0.01, so a deposit of 0.01
  succeeds, while 25% of the sum of the two stored prices is below the amount.
\<close>

theorem deposit_cap_rounding_counterexample:
  "fst (deposit decimal ''1'' ''2'' (Num (double (1 / 100))) pennies_db) = Returns (Inr ()) \<and>
   25 * outstanding 1 pennies_db / 100 < double (1 / 100)"
  by (simp del: One_nat_def add: deposit_def decimal_1 pennies_sum pennies_cap pennies_outstanding double_cent
      js_le_def js_gt_def)

text \<open>
  C6, amended. Let the caller's text be read as the id of the payer, the receiver's
  text differ from it and the amount be a positive number; let contract ids be
  unique, the prices of all jobs be whole and not negative, and 25 times the
  payer's outstanding total be at most \<open>2 ^ 53\<close>. Then the cap is 25% of the
  payer's outstanding total, and the deposit fails with DepositExceedsCap exactly
  when the amount is greater than the cap; otherwise it succeeds with the transfer
  made. With an outstanding total of 100, 25 succeeds and 26 fails.
\<close>

theorem deposit_cap:
  assumes "id_of profileId = Some payer"
    and "userId \<noteq> profileId"
    and "0 < a"
    and "distinct (map contract_id (Contracts d))"
    and "list_all (\<lambda>j. is_whole (price j) \<and> 0 \<le> price j) (Jobs d)"
    and "25 * outstanding payer d \<le> 2 ^ 53"
  shows "maxDepositValue (Some payer) d = Some (25 * outstanding payer d / 100) \<and>
         deposit id_of profileId userId (Num a) d =
           (if a > 25 * outstanding payer d / 100
            then (Returns (Inl DepositExceedsCap), d)
            else (Returns (Inr ()), transfer (Some payer) (id_of userId) a d)) \<and>
         (outstanding payer d = 100 \<longrightarrow>
            deposit id_of profileId userId (Num 25) d =
              (Returns (Inr ()), transfer (Some payer) (id_of userId) 25 d) \<and>
            deposit id_of profileId userId (Num 26) d = (Returns (Inl DepositExceedsCap), d))"
proof -
  let ?ps = "map price (unpaid_jobs (Some payer) d)"
  have out: "outstanding payer d = sum_list ?ps"
    using assms(4) by (rule outstanding_unpaid_jobs)
  have wh: "list_all (\<lambda>x. is_whole x \<and> 0 \<le> x) ?ps"
    using assms(5) by (auto simp: list_all_iff unpaid_jobs_def)
  have nn: "0 \<le> sum_list ?ps"
    using wh by (intro sum_list_nonneg) (auto simp: list_all_iff)
  have le: "sum_list ?ps \<le> 2 ^ 53" using assms(6) nn by (simp add: out)
  have whs: "is_whole (sum_list ?ps)"
    using wh by (intro is_whole_sum_list) (simp add: list_all_iff)
  have "safe (sum_list ?ps)" using whs nn le by (simp add: safe_def)
  then have ds: "double (sum_list ?ps) = sum_list ?ps" by (rule double_safe)
  have sum: "Job_sum (Some payer) d =
      Some (if ?ps = [] then Null else Num (sum_list ?ps))"
  proof (cases ?ps)
    case Nil
    then show ?thesis by (simp add: Job_sum_def)
  next
    case (Cons x xs)
    with sql_sum_exact [OF wh le] ds show ?thesis by (simp add: Job_sum_def)
  qed
  have cap0: "js_over (js_times 25 (sum_list ?ps)) 100 = 25 * sum_list ?ps / 100"
    using whs nn assms(6) by (intro cap_exact) (simp_all add: out)
  have z: "js_over (js_times 25 0) 100 = 0"
    by (simp add: js_over_def js_times_def double_def safe_def is_whole_def)
  have cap: "maxDepositValue (Some payer) d = Some (25 * outstanding payer d / 100)"
    by (cases "?ps = []") (simp_all add: maxDepositValue_def sum cap0 z out)
  have dep: "deposit id_of profileId userId (Num x) d =
      (if x > 25 * outstanding payer d / 100
       then (Returns (Inl DepositExceedsCap), d)
       else (Returns (Inr ()), transfer (Some payer) (id_of userId) x d))" if "0 < x" for x
    using assms(1,2) that by (simp add: deposit_def cap sum js_le_def js_gt_def)
  show ?thesis
    using cap dep [OF assms(3)] dep [of 25] dep [of 26] by simp
qed

text \<open>The amended C6 on the sample store with one unpaid job of price 100.\<close>

theorem deposit_cap_witness:
  "maxDepositValue (Some 1) (sample_db 0 100) = Some 25 \<and>
   deposit decimal ''1'' ''2'' (Num 25) (sample_db 0 100) =
     (Returns (Inr ()), transfer (Some 1) (Some 2) 25 (sample_db 0 100)) \<and>
   deposit decimal ''1'' ''2'' (Num 26) (sample_db 0 100) =
     (Returns (Inl DepositExceedsCap), sample_db 0 100)"
proof -
  have 1: "decimal ''1'' = Some 1" and 2: "decimal ''2'' = Some 2" by code_simp+
  have 3: "outstanding 1 (sample_db 0 100) = 100"
    by (simp add: outstanding_def sample_db_def)
  have 4: "distinct (map contract_id (Contracts (sample_db 0 100)))"
    by (simp add: sample_db_def)
  have 5: "list_all (\<lambda>j. is_whole (price j) \<and> 0 \<le> price j) (Jobs (sample_db 0 100))"
    by (simp add: sample_db_def is_whole_def)
  from deposit_cap [where id_of = decimal and profileId = "''1''" and userId = "''2''"
      and a = 25 and d = "sample_db 0 100", OF 1 _ _ 4 5] 2 3
  show ?thesis by simp
qed

text \<open>
  When the unpaid prices are whole, not negative and sum to zero, zero is the total
  the query returns.
\<close>

lemma Job_sum_zero:
  assumes "list_all (\<lambda>j. is_whole (price j) \<and> 0 \<le> price j) (unpaid_jobs k d)"
    and "unpaid_jobs k d \<noteq> []"
    and "sum_list (map price (unpaid_jobs k d)) = 0"
  shows "Job_sum k d = Some (Num 0)"
proof -
  have wh: "list_all (\<lambda>x. is_whole x \<and> 0 \<le> x) (map price (unpaid_jobs k d))"
    using assms(1) by (simp add: list_all_iff)
  have "sql_sum (map price (unpaid_jobs k d)) = Some 0"
    using sql_sum_exact [OF wh] assms(3) by simp
  moreover have "double 0 = 0" by (simp add: double_def safe_def is_whole_def)
  ultimately show ?thesis
    using assms(2) by (cases "unpaid_jobs k d") (simp_all add: Job_sum_def)
qed

text \<open>
  C10. When the caller has no unpaid job, or the sum of the unpaid prices the
  query returns is zero, the cap is 0 and every deposit of a positive amount to
  another receiver fails with DepositExceedsCap, the store unchanged.
\<close>

theorem deposit_without_unpaid_jobs:
  assumes "unpaid_jobs (id_of profileId) d = [] \<or> Job_sum (id_of profileId) d = Some (Num 0)"
    and "userId \<noteq> profileId" and "0 < a"
  shows "maxDepositValue (id_of profileId) d = Some 0 \<and>
         deposit id_of profileId userId (Num a) d = (Returns (Inl DepositExceedsCap), d)"
proof -
  have z: "js_over (js_times 25 0) 100 = 0"
    by (simp add: js_over_def js_times_def double_def safe_def is_whole_def)
  from assms(1) have s: "Job_sum (id_of profileId) d = Some Null \<or> Job_sum (id_of profileId) d = Some (Num 0)"
    by (auto simp: Job_sum_def)
  then have cap: "maxDepositValue (id_of profileId) d = Some 0"
    by (auto simp: maxDepositValue_def z)
  with s assms(2,3) show ?thesis
    by (auto simp: deposit_def js_le_def js_gt_def)
qed

text \<open>C10 on the sample store: profile 2 is the client of no contract.\<close>

theorem deposit_without_unpaid_jobs_witness:
  "maxDepositValue (decimal ''2'') (sample_db 500 200) = Some 0 \<and>
   deposit decimal ''2'' ''1'' (Num 1) (sample_db 500 200) =
     (Returns (Inl DepositExceedsCap), sample_db 500 200)"
proof -
  have 1: "decimal ''2'' = Some 2" by code_simp
  have "unpaid_jobs (decimal ''2'') (sample_db 500 200) = []"
    unfolding 1 by (simp add: unpaid_jobs_def sample_db_def client_is_def Contract_findByPk_def)
  with deposit_without_unpaid_jobs [of decimal "''2''" "sample_db 500 200" "''1''" 1]
  show ?thesis by simp
qed

section \<open>Atomicity of the payment\<close>

text \<open>
  When the storage layer accepts every statement, the payment with storage
  failures is the payment.
\<close>

lemma payJob_storage_accepts_all:
  "payJob_storage (\<lambda>s. False) jobId profileId now d = payJob jobId profileId now d"
  by (simp add: payJob_storage_def payJob_def transfer_storage_def Model_update_def
      issue_def transfer_def split: option.splits)

text \<open>
  C2 does not hold of the handler: on the sample store, when the storage layer
  rejects the update of the job and accepts the two balance updates, the answer is
  the internal error and the balances have changed (300 and 200) while the job is
  still unpaid.
\<close>

theorem payJob_storage_partial_write:
  "payJob_storage (\<lambda>s. s = MarkJobPaid) 1 1 1000 (sample_db 500 200) =
     (Returns (Inl InternalError),
      \<lparr>Profiles = [\<lparr>profile_id = 1, balance = 300\<rparr>, \<lparr>profile_id = 2, balance = 200\<rparr>],
       Contracts = [\<lparr>contract_id = 1, ClientId = 1, ContractorId = 2\<rparr>],
       Jobs = [\<lparr>job_id = 1, ContractId = 1, price = 200, paid = None, paymentDate = None\<rparr>]\<rparr>)"
  by code_simp

end
